theory Spec2Isabelle
  imports Complex_Main "HOL-Library.Sublist"
begin

section \<open>The external engine and the Python runtime\<close>

text \<open>
  The three scripts (\<open>video_replacer.py\<close>, \<open>upsell_video_replacer.py\<close>,
  \<open>audio_replacer.py\<close>) drive \<open>ffmpeg\<close> and \<open>ffprobe\<close> through
  \<open>subprocess.run\<close>. The model below keeps the scripts' control flow and makes the
  outside world explicit.

  Durations are Python floats in the source. They are modelled as exact rationals: every
  finite float is a rational, and the rounding of float arithmetic is not modelled.
\<close>

datatype py_error =
    CalledProcessError
  | ValueError
  | ZeroDivisionError
  | FileNotFoundError
  | OSError

text \<open>
  What one \<open>subprocess.run(..., capture_output=True, text=True)\<close> without
  \<open>check=True\<close> can do: raise (the program could not be started), or complete with an
  exit status and the captured standard output.
\<close>

datatype proc_outcome =
    Raised py_error
  | Exited int string

subsection \<open>Strings\<close>

text \<open>\<open>str.isspace\<close> on the characters below 256, and \<open>str.strip()\<close>.\<close>

definition isspace :: "char \<Rightarrow> bool" where
  "isspace c = (of_char c \<in> {9, 10, 11, 12, 13, 28, 29, 30, 31, 32, 133, 160 :: nat})"

definition strip :: "string \<Rightarrow> string" where
  "strip s = rev (dropWhile isspace (rev (dropWhile isspace s)))"

text \<open>
  The plain decimal notation that the probe prints (\<open>12.500000\<close>): digits, optionally
  a point and more digits. This is the fragment of Python's \<open>float()\<close> used for concrete
  runs; the theorems below hold for any parser put in its place.
\<close>

definition digit_val :: "char \<Rightarrow> nat option" where
  "digit_val c = (let n = of_char c :: nat in if 48 \<le> n \<and> n \<le> 57 then Some (n - 48) else None)"

fun digits_val :: "nat \<Rightarrow> string \<Rightarrow> nat option" where
  "digits_val acc [] = Some acc"
| "digits_val acc (c # cs) =
     (case digit_val c of None \<Rightarrow> None | Some d \<Rightarrow> digits_val (10 * acc + d) cs)"

definition float_decimal :: "string \<Rightarrow> rat option" where
  "float_decimal s =
     (let ip = takeWhile (\<lambda>c. c \<noteq> CHR ''.'') s;
          fp = drop (length ip + 1) s
      in if ip = [] \<and> fp = [] then None
         else (case (digits_val 0 ip, digits_val 0 fp) of
                 (Some i, Some f) \<Rightarrow> Some (of_nat i + of_nat f / 10 ^ length fp)
               | _ \<Rightarrow> None))"

subsection \<open>The environment of a run\<close>

text \<open>
  One invocation of \<open>ffmpeg\<close> with \<open>check=True\<close>, by what it is asked to do:
  \<^item> \<open>ExtractAudio\<close>: \<open>-i src -vn -c:a aac out\<close>;
  \<^item> \<open>MuteVideo\<close>: \<open>-i src [-t trim] [-ss seek] -an -c:v encoder quality out\<close>;
  \<^item> \<open>ConcatVideo\<close>: \<open>-f concat -safe 0 -i manifest [-vf scale,pad] [-an] -c:v encoder quality out\<close>;
  \<^item> \<open>Mux\<close>: \<open>-i video -i audio -c:v copy -c:a aac -shortest out\<close>.
\<close>

datatype cmd =
    ExtractAudio (c_src: string) (c_out: string)
  | MuteVideo (c_src: string) (c_trim: "rat option") (c_seek: "rat option")
      (c_encoder: string) (c_quality: string) (c_out: string)
  | ConcatVideo (c_src: string) (c_scalepad: bool) (c_mute: bool)
      (c_encoder: string) (c_quality: string) (c_out: string)
  | Mux (c_src: string) (c_audio: string) (c_out: string)

text \<open>
  What a run does to the outside, in order: the commands it issues, the manifest files
  it writes or appends to, and the one warning of the filler loop
  (\<open>Used all available videos\<close>); the other console lines are not recorded.
\<close>

datatype event =
    Exec cmd
  | WriteFile string "string list"
  | AppendFile string string
  | Warn

text \<open>
  The environment: Python's \<open>float()\<close> on a string (\<open>None\<close> is \<open>ValueError\<close>), the
  probe's answer for a path (the media files are not modified by a run, so it depends on
  the path only), and whether a transform exits with status zero, which may depend on
  everything done before.
\<close>

record env =
  pyfloat :: "string \<Rightarrow> rat option"
  ffprobe :: "string \<Rightarrow> proc_outcome"
  ffmpeg :: "event list \<Rightarrow> cmd \<Rightarrow> bool"

text \<open>The state a run changes: the paths that exist, and what it did so far.\<close>

record world =
  files :: "string set"
  trace :: "event list"

section \<open>MediaProbe and EncoderProfile\<close>

text \<open>
  \<open>get_video_duration\<close>: \<open>subprocess.run\<close> without \<open>check=True\<close>, then
  \<open>float(result.stdout.strip())\<close>. The exit status is never read.
\<close>

definition get_video_duration :: "env \<Rightarrow> string \<Rightarrow> py_error + rat" where
  "get_video_duration e video_path =
     (case ffprobe e video_path of
        Raised err \<Rightarrow> Inl err
      | Exited rc stdout \<Rightarrow>
          (case pyfloat e (strip stdout) of
             None \<Rightarrow> Inl ValueError
           | Some d \<Rightarrow> Inr d))"

text \<open>
  \<open>detect_encoder\<close>: the capability listing is queried without \<open>check=True\<close>; a bare
  \<open>except:\<close> turns any exception into the software profile.
\<close>

definition hardware_profile :: "string \<times> string" where
  "hardware_profile = (''h264_videotoolbox'', ''-b:v 10M -realtime 1 -prio_speed 1'')"

definition software_profile :: "string \<times> string" where
  "software_profile = (''libx264'', ''-crf 23 -preset fast'')"

definition detect_encoder :: "proc_outcome \<Rightarrow> string \<times> string" where
  "detect_encoder listing =
     (case listing of
        Raised err \<Rightarrow> software_profile
      | Exited rc stdout \<Rightarrow>
          if sublist ''h264_videotoolbox'' stdout then hardware_profile
          else software_profile)"

section \<open>Stages: running one step against the world\<close>

text \<open>
  A step takes the world and returns an error or a value, and the world it leaves
  behind. \<open>then_do\<close> sequences two steps: a raised error skips everything after it.
\<close>

definition then_do ::
  "(world \<Rightarrow> (py_error + 'a) \<times> world) \<Rightarrow> ('a \<Rightarrow> world \<Rightarrow> (py_error + 'b) \<times> world)
    \<Rightarrow> world \<Rightarrow> (py_error + 'b) \<times> world" where
  "then_do m f w = (case m w of (Inl err, w') \<Rightarrow> (Inl err, w') | (Inr x, w') \<Rightarrow> f x w')"

definition give :: "'a \<Rightarrow> world \<Rightarrow> (py_error + 'a) \<times> world" where
  "give x w = (Inr x, w)"

text \<open>
  \<open>subprocess.run([...], check=True)\<close>: the command is issued; on exit status zero its
  output file exists afterwards, otherwise \<open>CalledProcessError\<close> is raised.
\<close>

definition run_ffmpeg :: "env \<Rightarrow> cmd \<Rightarrow> world \<Rightarrow> (py_error + unit) \<times> world" where
  "run_ffmpeg e c w =
     (if ffmpeg e (trace w) c
      then (Inr (), \<lparr>files = insert (c_out c) (files w), trace = trace w @ [Exec c]\<rparr>)
      else (Inl CalledProcessError, \<lparr>files = files w, trace = trace w @ [Exec c]\<rparr>))"

definition probe :: "env \<Rightarrow> string \<Rightarrow> world \<Rightarrow> (py_error + rat) \<times> world" where
  "probe e video_path w = (get_video_duration e video_path, w)"

text \<open>\<open>with open(p, 'w') as f: f.write(...)\<close> and \<open>with open(p, 'a') as f: f.write(...)\<close>.\<close>

definition write_file :: "string \<Rightarrow> string list \<Rightarrow> world \<Rightarrow> (py_error + unit) \<times> world" where
  "write_file p ls w =
     (Inr (), \<lparr>files = insert p (files w), trace = trace w @ [WriteFile p ls]\<rparr>)"

definition append_file :: "string \<Rightarrow> string \<Rightarrow> world \<Rightarrow> (py_error + unit) \<times> world" where
  "append_file p l w =
     (Inr (), \<lparr>files = insert p (files w), trace = trace w @ [AppendFile p l]\<rparr>)"

text \<open>\<open>os.remove(p)\<close>, which raises when \<open>p\<close> does not exist.\<close>

definition os_remove :: "string \<Rightarrow> world \<Rightarrow> (py_error + unit) \<times> world" where
  "os_remove p w =
     (if p \<in> files w then (Inr (), w\<lparr>files := files w - {p}\<rparr>)
      else (Inl FileNotFoundError, w))"

text \<open>\<open>if os.path.exists(p): os.remove(p)\<close>, and the same over a list of paths.\<close>

definition remove_if_exists :: "string \<Rightarrow> world \<Rightarrow> world" where
  "remove_if_exists p w = (if p \<in> files w then w\<lparr>files := files w - {p}\<rparr> else w)"

definition remove_all :: "string list \<Rightarrow> world \<Rightarrow> (py_error + unit) \<times> world" where
  "remove_all ps w = (Inr (), fold remove_if_exists ps w)"

definition print_warning :: "world \<Rightarrow> world" where
  "print_warning w = w\<lparr>trace := trace w @ [Warn]\<rparr>"

subsection \<open>Paths and names\<close>

text \<open>\<open>os.path.join(a, b)\<close> for two components.\<close>

definition path_join :: "string \<Rightarrow> string \<Rightarrow> string" where
  "path_join a b =
     (if b \<noteq> [] \<and> hd b = CHR ''/'' then b
      else if a = [] \<or> last a = CHR ''/'' then a @ b
      else a @ CHR ''/'' # b)"

text \<open>The decimal digits of a natural number, as an f-string prints it.\<close>

function str_nat :: "nat \<Rightarrow> string" where
  "str_nat n =
     (if n < 10 then [char_of (48 + n)]
      else str_nat (n div 10) @ [char_of (48 + n mod 10)])"
  by pat_completeness auto
termination
  by (relation "measure (\<lambda>n. n)") auto

declare str_nat.simps [simp del]

text \<open>A line of a concatenation manifest: \<open>file '<path>'\<close> and a newline.\<close>

definition manifest_line :: "string \<Rightarrow> string" where
  "manifest_line p = ''file '' @ [CHR 0x27] @ p @ [CHR 0x27, CHR 0x0A]"

text \<open>The intermediate files of \<open>process_replacement_video\<close>, by their names.\<close>

definition processed_path :: "string \<Rightarrow> nat \<Rightarrow> string" where
  "processed_path work_dir output_number =
     path_join work_dir (''temp_processed_'' @ str_nat output_number @ ''.mp4'')"

definition segments_path :: "string \<Rightarrow> nat \<Rightarrow> string" where
  "segments_path work_dir output_number =
     path_join work_dir (''temp_segments_'' @ str_nat output_number @ ''.txt'')"

definition original_path :: "string \<Rightarrow> nat \<Rightarrow> string" where
  "original_path work_dir output_number =
     path_join work_dir (''temp_original_'' @ str_nat output_number @ ''.mp4'')"

definition filler_path :: "string \<Rightarrow> nat \<Rightarrow> nat \<Rightarrow> string" where
  "filler_path work_dir output_number j =
     path_join work_dir (''temp_filler_'' @ str_nat output_number @ ''_'' @ str_nat j @ ''.mp4'')"

section \<open>SegmentComposer: \<open>process_replacement_video\<close>\<close>

text \<open>
  Lines 127 to 129: the next filler, cycling through the folder and skipping the
  current file. The pool is not empty here (the caller of \<open>filler_step\<close> checks).
\<close>

definition filler_video_index :: "nat \<Rightarrow> nat \<Rightarrow> nat \<Rightarrow> nat" where
  "filler_video_index current_index filler_index n =
     (let i = (current_index + 1 + filler_index) mod n
      in if i = current_index then (i + 1) mod n else i)"

text \<open>
  One pass through the body of the \<open>while\<close> loop (lines 126 to 157): select the filler,
  probe it, cut or copy it, and append it to the segment list. It returns the duration
  used. The modulo by an empty folder raises \<open>ZeroDivisionError\<close>.
\<close>

definition filler_step ::
  "env \<Rightarrow> string \<Rightarrow> string \<Rightarrow> string \<Rightarrow> nat \<Rightarrow> string list \<Rightarrow> nat \<Rightarrow> string
    \<Rightarrow> rat \<Rightarrow> nat \<Rightarrow> world \<Rightarrow> (py_error + rat) \<times> world" where
  "filler_step e encoder quality_params work_dir output_number video_files current_index
      segment_list remaining_needed filler_index =
     (if video_files = [] then (\<lambda>w. (Inl ZeroDivisionError, w))
      else
        let filler_video =
              video_files ! filler_video_index current_index filler_index (length video_files)
        in
        then_do (probe e filler_video) (\<lambda>filler_duration.
        let use_duration = min filler_duration remaining_needed;
            filler_segment = filler_path work_dir output_number filler_index
        in
        then_do
          (if use_duration = filler_duration
           then run_ffmpeg e (MuteVideo filler_video None None encoder quality_params filler_segment)
           else run_ffmpeg e
                  (MuteVideo filler_video (Some use_duration) None encoder quality_params
                     filler_segment)) (\<lambda>_.
        then_do (append_file segment_list (manifest_line filler_segment)) (\<lambda>_.
        give use_duration))))"

text \<open>
  The \<open>while\<close> loop of lines 125 to 168, on its three variables. It returns them as
  they stand when the loop is left.
\<close>

function filler_loop ::
  "env \<Rightarrow> string \<Rightarrow> string \<Rightarrow> string \<Rightarrow> nat \<Rightarrow> string list \<Rightarrow> nat \<Rightarrow> string
    \<Rightarrow> rat \<Rightarrow> rat \<Rightarrow> nat \<Rightarrow> world \<Rightarrow> (py_error + rat \<times> rat \<times> nat) \<times> world" where
  "filler_loop e encoder quality_params work_dir output_number video_files current_index
      segment_list remaining_needed current_duration filler_index w =
     (if remaining_needed > 0 \<and> filler_index \<le> length video_files then
        (case filler_step e encoder quality_params work_dir output_number video_files
                current_index segment_list remaining_needed filler_index w of
           (Inl err, w') \<Rightarrow> (Inl err, w')
         | (Inr use_duration, w') \<Rightarrow>
             if filler_index + 1 > length video_files
             then (Inr (remaining_needed - use_duration, current_duration + use_duration,
                        filler_index + 1), print_warning w')
             else filler_loop e encoder quality_params work_dir output_number video_files
                    current_index segment_list (remaining_needed - use_duration)
                    (current_duration + use_duration) (filler_index + 1) w')
      else (Inr (remaining_needed, current_duration, filler_index), w))"
  by pat_completeness auto
termination
  by (relation "measure (\<lambda>(e, encoder, quality_params, work_dir, output_number, video_files,
        current_index, segment_list, remaining_needed, current_duration, filler_index, w).
        length video_files + 1 - filler_index)") auto

declare filler_loop.simps [simp del]

text \<open>
  Lines 170 to 188: concatenate the segments of the list into the processed file, then
  delete the segment files and the list.
\<close>

definition concat_segments ::
  "env \<Rightarrow> string \<Rightarrow> string \<Rightarrow> string \<Rightarrow> nat \<Rightarrow> nat
    \<Rightarrow> world \<Rightarrow> (py_error + string) \<times> world" where
  "concat_segments e encoder quality_params work_dir output_number filler_index =
     then_do
       (run_ffmpeg e
          (ConcatVideo (segments_path work_dir output_number) False False encoder
             quality_params (processed_path work_dir output_number))) (\<lambda>_.
     then_do (os_remove (original_path work_dir output_number)) (\<lambda>_.
     then_do
       (remove_all (map (filler_path work_dir output_number) [0..<filler_index])) (\<lambda>_.
     then_do (os_remove (segments_path work_dir output_number)) (\<lambda>_.
     give (processed_path work_dir output_number)))))"

text \<open>
  Lines 101 to 186, the branch of a replacement video that is too short: the whole
  video first, then fillers, then the concatenation.
\<close>

definition composite ::
  "env \<Rightarrow> string \<Rightarrow> rat \<Rightarrow> string \<Rightarrow> string \<Rightarrow> string \<Rightarrow> nat \<Rightarrow> string list \<Rightarrow> nat
    \<Rightarrow> rat \<Rightarrow> world \<Rightarrow> (py_error + string) \<times> world" where
  "composite e video_file target_length encoder quality_params work_dir output_number
      video_files current_index duration =
     then_do
       (run_ffmpeg e
          (MuteVideo video_file None None encoder quality_params
             (original_path work_dir output_number))) (\<lambda>_.
     then_do
       (write_file (segments_path work_dir output_number)
          [manifest_line (original_path work_dir output_number)]) (\<lambda>_.
     then_do
       (filler_loop e encoder quality_params work_dir output_number video_files
          current_index (segments_path work_dir output_number)
          (target_length - duration) duration 0)
       (\<lambda>(remaining_needed, current_duration, filler_index).
     concat_segments e encoder quality_params work_dir output_number filler_index)))"

text \<open>\<open>process_replacement_video\<close>, lines 86 to 188.\<close>

definition process_replacement_video ::
  "env \<Rightarrow> string \<Rightarrow> rat \<Rightarrow> string \<Rightarrow> string \<Rightarrow> string \<Rightarrow> nat \<Rightarrow> string list \<Rightarrow> nat
    \<Rightarrow> world \<Rightarrow> (py_error + string) \<times> world" where
  "process_replacement_video e video_file target_length encoder quality_params work_dir
      output_number video_files current_index =
     then_do (probe e video_file) (\<lambda>duration.
     if duration \<ge> target_length then
       then_do
         (run_ffmpeg e
            (MuteVideo video_file (Some target_length) None encoder quality_params
               (processed_path work_dir output_number))) (\<lambda>_.
       give (processed_path work_dir output_number))
     else
       composite e video_file target_length encoder quality_params work_dir output_number
         video_files current_index duration)"

text \<open>
  Reading a run's record. The steps of the composite are the mute-and-cut commands
  issued: the first one is the anchor's, the others are the fillers'. A step lasts its
  cut length where it has one, and its clip's probed duration otherwise. The warning of
  the loop is the report of partial coverage.
\<close>

fun plan_steps :: "event list \<Rightarrow> cmd list" where
  "plan_steps [] = []"
| "plan_steps (Exec (MuteVideo s t k en q ou) # evs) = MuteVideo s t k en q ou # plan_steps evs"
| "plan_steps (ev # evs) = plan_steps evs"

definition filler_steps :: "event list \<Rightarrow> cmd list" where
  "filler_steps evs = tl (plan_steps evs)"

definition step_seconds :: "env \<Rightarrow> cmd \<Rightarrow> rat" where
  "step_seconds e c =
     (case c_trim c of
        Some t \<Rightarrow> t
      | None \<Rightarrow> (case get_video_duration e (c_src c) of Inr d \<Rightarrow> d | Inl err \<Rightarrow> 0))"

definition planned_seconds :: "env \<Rightarrow> event list \<Rightarrow> rat" where
  "planned_seconds e evs = sum_list (map (step_seconds e) (plan_steps evs))"


text \<open>The world before a run: some files exist, nothing has been done.\<close>

definition fresh :: "string set \<Rightarrow> world" where
  "fresh fs = \<lparr>files = fs, trace = []\<rparr>"

text \<open>What was done between an earlier world and a later one.\<close>

definition since :: "world \<Rightarrow> world \<Rightarrow> event list" where
  "since w w' = drop (length (trace w)) (trace w')"

text \<open>The paths that a sequence of events wrote to.\<close>

fun touched :: "event list \<Rightarrow> string set" where
  "touched [] = {}"
| "touched (Exec c # evs) = insert (c_out c) (touched evs)"
| "touched (WriteFile p ls # evs) = insert p (touched evs)"
| "touched (AppendFile p l # evs) = insert p (touched evs)"
| "touched (Warn # evs) = touched evs"

text \<open>
  The command that one pass of the loop issues for a filler of a given duration, and the
  world after the pass, or after the command failed.
\<close>

definition filler_cmd ::
  "string \<Rightarrow> string \<Rightarrow> string \<Rightarrow> nat \<Rightarrow> string list \<Rightarrow> nat \<Rightarrow> rat \<Rightarrow> nat \<Rightarrow> rat \<Rightarrow> cmd" where
  "filler_cmd encoder quality_params work_dir output_number video_files current_index
      remaining_needed filler_index filler_duration =
     MuteVideo (video_files ! filler_video_index current_index filler_index (length video_files))
       (if min filler_duration remaining_needed = filler_duration then None
        else Some (min filler_duration remaining_needed))
       None encoder quality_params (filler_path work_dir output_number filler_index)"

definition filler_done :: "string \<Rightarrow> string \<Rightarrow> cmd \<Rightarrow> world \<Rightarrow> world" where
  "filler_done segment_list filler_segment c w =
     \<lparr>files = insert segment_list (insert filler_segment (files w)),
      trace = trace w @ [Exec c, AppendFile segment_list (manifest_line filler_segment)]\<rparr>"

definition filler_failed :: "cmd \<Rightarrow> world \<Rightarrow> world" where
  "filler_failed c w = \<lparr>files = files w, trace = trace w @ [Exec c]\<rparr>"

text \<open>
  The command issued for the whole replacement video at the head of a composite, the
  world when the loop is entered (that segment and the segment list exist), the command
  for a replacement video that is long enough, and the concatenation of the segments.
\<close>

definition anchor_cmd :: "string \<Rightarrow> string \<Rightarrow> string \<Rightarrow> string \<Rightarrow> nat \<Rightarrow> cmd" where
  "anchor_cmd video_file encoder quality_params work_dir output_number =
     MuteVideo video_file None None encoder quality_params
       (original_path work_dir output_number)"

definition anchor_done :: "string \<Rightarrow> nat \<Rightarrow> cmd \<Rightarrow> world \<Rightarrow> world" where
  "anchor_done work_dir output_number c w =
     \<lparr>files = insert (segments_path work_dir output_number)
                (insert (original_path work_dir output_number) (files w)),
      trace = trace w @ [Exec c,
                WriteFile (segments_path work_dir output_number)
                  [manifest_line (original_path work_dir output_number)]]\<rparr>"

definition cut_cmd :: "string \<Rightarrow> rat \<Rightarrow> string \<Rightarrow> string \<Rightarrow> string \<Rightarrow> nat \<Rightarrow> cmd" where
  "cut_cmd video_file target_length encoder quality_params work_dir output_number =
     MuteVideo video_file (Some target_length) None encoder quality_params
       (processed_path work_dir output_number)"

definition concat_cmd :: "string \<Rightarrow> string \<Rightarrow> string \<Rightarrow> nat \<Rightarrow> cmd" where
  "concat_cmd encoder quality_params work_dir output_number =
     ConcatVideo (segments_path work_dir output_number) False False encoder quality_params
       (processed_path work_dir output_number)"

text \<open>
  An engine that never fails on the files of a run: every transform exits with status
  zero, and every probe of the replacement video or of a file of the folder prints a
  number.
\<close>

definition cooperative :: "env \<Rightarrow> string \<Rightarrow> string list \<Rightarrow> bool" where
  "cooperative e video_file video_files =
     ((\<forall>h c. ffmpeg e h c)
      \<and> (\<forall>p \<in> set (video_file # video_files). \<exists>d. get_video_duration e p = Inr d))"

section \<open>PipelineExecutor: the loop of \<open>video_replacer.main\<close>\<close>

text \<open>The files of one pass of the loop, by their names.\<close>

definition main_audio_path :: "string \<Rightarrow> nat \<Rightarrow> string" where
  "main_audio_path work_dir i = path_join work_dir (''main_audio_'' @ str_nat i @ ''.aac'')"

definition main_segment_path :: "string \<Rightarrow> nat \<Rightarrow> string" where
  "main_segment_path work_dir output_number =
     path_join work_dir (''temp_main_segment_'' @ str_nat output_number @ ''.mp4'')"

definition list_path :: "string \<Rightarrow> nat \<Rightarrow> string" where
  "list_path work_dir output_number =
     path_join work_dir (''temp_list_'' @ str_nat output_number @ ''.txt'')"

definition combined_path :: "string \<Rightarrow> nat \<Rightarrow> string" where
  "combined_path work_dir output_number =
     path_join work_dir (''temp_combined_'' @ str_nat output_number @ ''.mp4'')"

definition output_path :: "string \<Rightarrow> string \<Rightarrow> nat \<Rightarrow> string" where
  "output_path work_dir folder_name output_number =
     path_join work_dir (folder_name @ ''_'' @ str_nat output_number @ ''.mp4'')"

text \<open>
  The body of the \<open>for\<close> loop of \<open>main\<close> (lines 260 to 321) for the file at index
  \<open>i\<close> of the folder: extract the audio of the main video, build the replacement,
  cut the rest of the main video, concatenate, add the audio, delete the five
  intermediate files, probe the output.
\<close>

definition main_loop_body ::
  "env \<Rightarrow> string \<Rightarrow> rat \<Rightarrow> string \<Rightarrow> string \<Rightarrow> string \<Rightarrow> string \<Rightarrow> string list \<Rightarrow> nat
    \<Rightarrow> world \<Rightarrow> (py_error + unit) \<times> world" where
  "main_loop_body e main_video target_length encoder quality_params work_dir folder_name
      video_files i =
     (let video_file = video_files ! i;
          output_number = i + 1;
          main_audio = main_audio_path work_dir i
      in
      then_do (run_ffmpeg e (ExtractAudio main_video main_audio)) (\<lambda>_.
      then_do
        (process_replacement_video e video_file target_length encoder quality_params
           work_dir output_number video_files i) (\<lambda>processed_file.
      let main_segment = main_segment_path work_dir output_number in
      then_do
        (run_ffmpeg e
           (MuteVideo main_video None (Some target_length) encoder quality_params
              main_segment)) (\<lambda>_.
      let output_file = output_path work_dir folder_name output_number;
          concat_list = list_path work_dir output_number
      in
      then_do
        (write_file concat_list [manifest_line processed_file, manifest_line main_segment])
        (\<lambda>_.
      let combined_video = combined_path work_dir output_number in
      then_do
        (run_ffmpeg e
           (ConcatVideo concat_list True False encoder quality_params combined_video)) (\<lambda>_.
      then_do (run_ffmpeg e (Mux combined_video main_audio output_file)) (\<lambda>_.
      then_do
        (remove_all [processed_file, main_segment, concat_list, main_audio, combined_video])
        (\<lambda>_.
      then_do (probe e output_file) (\<lambda>output_duration.
      give ())))))))))"

text \<open>
  The \<open>for\<close> loop over \<open>enumerate(video_files)\<close>, on the indices still to do. An
  exception leaves the loop: nothing catches it inside \<open>main\<close>.
\<close>

fun main_loop ::
  "env \<Rightarrow> string \<Rightarrow> rat \<Rightarrow> string \<Rightarrow> string \<Rightarrow> string \<Rightarrow> string \<Rightarrow> string list \<Rightarrow> nat list
    \<Rightarrow> world \<Rightarrow> (py_error + unit) \<times> world" where
  "main_loop e main_video target_length encoder quality_params work_dir folder_name
      video_files [] w = (Inr (), w)"
| "main_loop e main_video target_length encoder quality_params work_dir folder_name
      video_files (i # rest) w =
     (case main_loop_body e main_video target_length encoder quality_params work_dir
             folder_name video_files i w of
        (Inl err, w') \<Rightarrow> (Inl err, w')
      | (Inr u, w') \<Rightarrow>
          main_loop e main_video target_length encoder quality_params work_dir folder_name
            video_files rest w')"

text \<open>
  \<open>main\<close> from the scan of the folder on (lines 251 to 337), with the inputs already
  read: an empty folder exits with status 1; after the loop the first output is probed
  when it exists. The exit status is \<open>Inl (Inr status)\<close> here, an exception that
  escapes is \<open>Inl (Inl err)\<close>.
\<close>

definition main_from_scan ::
  "env \<Rightarrow> string \<Rightarrow> rat \<Rightarrow> string \<Rightarrow> string \<Rightarrow> string \<Rightarrow> string \<Rightarrow> string list
    \<Rightarrow> world \<Rightarrow> ((py_error + nat) + unit) \<times> world" where
  "main_from_scan e main_video target_length encoder quality_params work_dir folder_name
      video_files w =
     (if video_files = [] then (Inl (Inr 1), w)
      else
        (case main_loop e main_video target_length encoder quality_params work_dir
                folder_name video_files [0..<length video_files] w of
           (Inl err, w') \<Rightarrow> (Inl (Inl err), w')
         | (Inr u, w') \<Rightarrow>
             if output_path work_dir folder_name 1 \<in> files w'
             then (case get_video_duration e (output_path work_dir folder_name 1) of
                     Inl err \<Rightarrow> (Inl (Inl err), w')
                   | Inr sample_duration \<Rightarrow> (Inr (), w'))
             else (Inr (), w')))"

text \<open>
  The script (lines 339 to 348): \<open>except Exception\<close> prints the error and exits with
  status 1. The result is the exit status of the process.
\<close>

definition script ::
  "env \<Rightarrow> string \<Rightarrow> rat \<Rightarrow> string \<Rightarrow> string \<Rightarrow> string \<Rightarrow> string \<Rightarrow> string list
    \<Rightarrow> world \<Rightarrow> nat \<times> world" where
  "script e main_video target_length encoder quality_params work_dir folder_name
      video_files w =
     (case main_from_scan e main_video target_length encoder quality_params work_dir
             folder_name video_files w of
        (Inl (Inl err), w') \<Rightarrow> (1, w')
      | (Inl (Inr status), w') \<Rightarrow> (status, w')
      | (Inr u, w') \<Rightarrow> (0, w'))"

section \<open>PipelineExecutor: the loop of \<open>upsell_video_replacer.main\<close>\<close>










section \<open>Engines for concrete runs\<close>

text \<open>An engine that never fails, over clips that last one second each.\<close>

definition steady_env :: env where
  "steady_env =
     \<lparr>pyfloat = float_decimal,
      ffprobe = (\<lambda>p. Exited 0 (''1.000000'' @ [CHR 0x0A])),
      ffmpeg = (\<lambda>h c. True)\<rparr>"




text \<open>
  Engines over clips of one second whose first command, whose third command, or whose
  command after six recorded events, exits with a non-zero status, and every other
  command with status zero.
\<close>

definition seventh_fails_env :: env where
  "seventh_fails_env =
     \<lparr>pyfloat = float_decimal,
      ffprobe = (\<lambda>p. Exited 0 (''1.000000'' @ [CHR 0x0A])),
      ffmpeg = (\<lambda>h c. length h \<noteq> 6)\<rparr>"

definition first_fails_env :: env where
  "first_fails_env =
     \<lparr>pyfloat = float_decimal,
      ffprobe = (\<lambda>p. Exited 0 (''1.000000'' @ [CHR 0x0A])),
      ffmpeg = (\<lambda>h c. h \<noteq> [])\<rparr>"


text \<open>A probe whose engine exits with status 1 and still prints a duration.\<close>

definition nonzero_exit_env :: env where
  "nonzero_exit_env =
     \<lparr>pyfloat = float_decimal,
      ffprobe = (\<lambda>p. Exited 1 (''12.500000'' @ [CHR 0x0A])),
      ffmpeg = (\<lambda>h c. True)\<rparr>"

text \<open>A probe whose engine exits with status 0 and prints a duration.\<close>

definition zero_exit_env :: env where
  "zero_exit_env =
     \<lparr>pyfloat = float_decimal,
      ffprobe = (\<lambda>p. Exited 0 (''7.250000'' @ [CHR 0x0A])),
      ffmpeg = (\<lambda>h c. True)\<rparr>"

section \<open>Properties of the probe and of encoder resolution\<close>

text \<open>
  C8, as stated, fails: the claim makes a non-zero exit of the engine a probe failure.
  With an engine that exits with status 1 and prints \<open>12.500000\<close>, the probe returns
  12.5 seconds.
\<close>

theorem get_video_duration_nonzero_exit_counterexample:
  "ffprobe nonzero_exit_env ''clip.mp4'' = Exited 1 (''12.500000'' @ [CHR 0x0A])
   \<and> get_video_duration nonzero_exit_env ''clip.mp4'' = Inr (25 / 2)"
  by (simp add: get_video_duration_def nonzero_exit_env_def strip_def isspace_def
      float_decimal_def digit_val_def)

text \<open>
  C8, amended. The probe fails exactly when the engine could not be run or its output,
  stripped of surrounding white space, is not parseable as a number; the exit status is
  not consulted. On parseable output it returns that value, whatever the exit status.
\<close>

theorem get_video_duration_fails_iff:
  "((\<exists>err. get_video_duration e p = Inl err)
      \<longleftrightarrow> ((\<exists>err. ffprobe e p = Raised err)
           \<or> (\<exists>rc stdout. ffprobe e p = Exited rc stdout \<and> pyfloat e (strip stdout) = None)))
   \<and> (\<forall>rc stdout d. ffprobe e p = Exited rc stdout \<and> pyfloat e (strip stdout) = Some d
        \<longrightarrow> get_video_duration e p = Inr d)"
  by (cases "ffprobe e p") (auto simp: get_video_duration_def split: option.splits)

theorem get_video_duration_fails_iff_witness:
  "ffprobe zero_exit_env ''clip.mp4'' = Exited 0 (''7.250000'' @ [CHR 0x0A])
   \<and> pyfloat zero_exit_env (strip (''7.250000'' @ [CHR 0x0A])) = Some (29 / 4)
   \<and> get_video_duration zero_exit_env ''clip.mp4'' = Inr (29 / 4)"
proof -
  have a: "ffprobe zero_exit_env ''clip.mp4'' = Exited 0 (''7.250000'' @ [CHR 0x0A])"
    by (simp add: zero_exit_env_def)
  have b: "pyfloat zero_exit_env (strip (''7.250000'' @ [CHR 0x0A])) = Some (29 / 4)"
    by (simp add: zero_exit_env_def strip_def isspace_def float_decimal_def digit_val_def)
  from get_video_duration_fails_iff [of zero_exit_env "''clip.mp4''"] a b
  have "get_video_duration zero_exit_env ''clip.mp4'' = Inr (29 / 4)"
    by blast
  with a b show ?thesis by blast
qed

text \<open>
  C9. Encoder resolution is total: whatever the capability query does (raise, or exit
  with any status and any output), \<open>detect_encoder\<close> returns one of the two profiles; it
  returns the hardware encoder with the speed-biased parameters exactly when the query
  completed and the hardware encoder's name occurs in its output, and the software
  encoder with the balanced parameters otherwise.
\<close>

theorem detect_encoder_total:
  "(detect_encoder listing = hardware_profile \<or> detect_encoder listing = software_profile)
   \<and> (detect_encoder listing = hardware_profile
        \<longleftrightarrow> (\<exists>rc stdout. listing = Exited rc stdout \<and> sublist ''h264_videotoolbox'' stdout))
   \<and> (detect_encoder listing = software_profile
        \<longleftrightarrow> \<not> (\<exists>rc stdout. listing = Exited rc stdout \<and> sublist ''h264_videotoolbox'' stdout))
   \<and> detect_encoder (Raised err) = software_profile
   \<and> hardware_profile \<noteq> software_profile"
  by (cases listing) (simp_all add: detect_encoder_def hardware_profile_def software_profile_def)

section \<open>The filler loop\<close>

lemma plan_steps_append: "plan_steps (xs @ ys) = plan_steps xs @ plan_steps ys"
  by (induction xs rule: plan_steps.induct) simp_all

lemma filler_step_empty:
  "filler_step e enc q wd n [] ci seg rem fi w = (Inl ZeroDivisionError, w)"
  by (simp add: filler_step_def)

lemma filler_step_probe_fails:
  assumes "vfs \<noteq> []"
    and "get_video_duration e (vfs ! filler_video_index ci fi (length vfs)) = Inl err"
  shows "filler_step e enc q wd n vfs ci seg rem fi w = (Inl err, w)"
  using assms by (simp add: filler_step_def then_do_def probe_def Let_def)

lemma filler_step_probe_ok:
  assumes "vfs \<noteq> []"
    and "get_video_duration e (vfs ! filler_video_index ci fi (length vfs)) = Inr fd"
  shows "filler_step e enc q wd n vfs ci seg rem fi w =
     (if ffmpeg e (trace w) (filler_cmd enc q wd n vfs ci rem fi fd)
      then (Inr (min fd rem),
            filler_done seg (filler_path wd n fi) (filler_cmd enc q wd n vfs ci rem fi fd) w)
      else (Inl CalledProcessError, filler_failed (filler_cmd enc q wd n vfs ci rem fi fd) w))"
  using assms
  by (simp add: filler_step_def then_do_def probe_def run_ffmpeg_def append_file_def give_def
      filler_cmd_def filler_done_def filler_failed_def Let_def)

lemma filler_loop_rule:
  assumes run: "filler_loop e enc q wd n vfs ci seg rem cur fi w = (r, w')"
    and leave: "\<And>rem cur fi w. \<not> (rem > 0 \<and> fi \<le> length vfs)
                  \<Longrightarrow> Q rem cur fi w (Inr (rem, cur, fi)) w"
    and nopool: "\<And>rem cur fi w. rem > 0 \<Longrightarrow> vfs = []
                  \<Longrightarrow> Q rem cur fi w (Inl ZeroDivisionError) w"
    and noprobe: "\<And>rem cur fi w err. rem > 0 \<Longrightarrow> fi \<le> length vfs \<Longrightarrow> vfs \<noteq> []
                  \<Longrightarrow> get_video_duration e (vfs ! filler_video_index ci fi (length vfs)) = Inl err
                  \<Longrightarrow> Q rem cur fi w (Inl err) w"
    and nostage: "\<And>rem cur fi w fd. rem > 0 \<Longrightarrow> fi \<le> length vfs \<Longrightarrow> vfs \<noteq> []
                  \<Longrightarrow> get_video_duration e (vfs ! filler_video_index ci fi (length vfs)) = Inr fd
                  \<Longrightarrow> \<not> ffmpeg e (trace w) (filler_cmd enc q wd n vfs ci rem fi fd)
                  \<Longrightarrow> Q rem cur fi w (Inl CalledProcessError)
                        (filler_failed (filler_cmd enc q wd n vfs ci rem fi fd) w)"
    and final: "\<And>rem cur fi w fd. rem > 0 \<Longrightarrow> fi = length vfs \<Longrightarrow> vfs \<noteq> []
                  \<Longrightarrow> get_video_duration e (vfs ! filler_video_index ci fi (length vfs)) = Inr fd
                  \<Longrightarrow> ffmpeg e (trace w) (filler_cmd enc q wd n vfs ci rem fi fd)
                  \<Longrightarrow> Q rem cur fi w (Inr (rem - min fd rem, cur + min fd rem, fi + 1))
                        (print_warning (filler_done seg (filler_path wd n fi)
                           (filler_cmd enc q wd n vfs ci rem fi fd) w))"
    and again: "\<And>rem cur fi w fd r w'. rem > 0 \<Longrightarrow> fi < length vfs \<Longrightarrow> vfs \<noteq> []
                  \<Longrightarrow> get_video_duration e (vfs ! filler_video_index ci fi (length vfs)) = Inr fd
                  \<Longrightarrow> ffmpeg e (trace w) (filler_cmd enc q wd n vfs ci rem fi fd)
                  \<Longrightarrow> Q (rem - min fd rem) (cur + min fd rem) (fi + 1)
                        (filler_done seg (filler_path wd n fi)
                           (filler_cmd enc q wd n vfs ci rem fi fd) w) r w'
                  \<Longrightarrow> Q rem cur fi w r w'"
  shows "Q rem cur fi w r w'"
  using assms
proof (induction e enc q wd n vfs ci seg rem cur fi w arbitrary: r w' rule: filler_loop.induct)
  case (1 e enc q wd n vfs ci seg rem cur fi w)
  note run = "1.prems"(1) [unfolded filler_loop.simps [of e enc q wd n vfs ci seg rem cur fi w]]
    and leave = "1.prems"(2) and nopool = "1.prems"(3)
    and noprobe = "1.prems"(4) and nostage = "1.prems"(5) and final = "1.prems"(6)
    and again = "1.prems"(7)
  show ?case
  proof (cases "rem > 0 \<and> fi \<le> length vfs")
    case False
    with run have "r = Inr (rem, cur, fi)" "w' = w" by auto
    with leave [OF False] show ?thesis by simp
  next
    case True
    then have pos: "rem > 0" and le: "fi \<le> length vfs" by simp_all
    show ?thesis
    proof (cases "vfs = []")
      case True
      with pos le run have "r = Inl ZeroDivisionError" "w' = w"
        by (auto simp: filler_step_empty)
      with nopool [OF pos True] show ?thesis by simp
    next
      case False
      show ?thesis
      proof (cases "get_video_duration e (vfs ! filler_video_index ci fi (length vfs))")
        case (Inl err)
        with False pos le run have "r = Inl err" "w' = w"
          by (auto simp: filler_step_probe_fails)
        with noprobe [OF pos le False Inl] show ?thesis by simp
      next
        case (Inr fd)
        let ?c = "filler_cmd enc q wd n vfs ci rem fi fd"
        note step = filler_step_probe_ok [OF False Inr, of enc q wd n seg rem w]
        show ?thesis
        proof (cases "ffmpeg e (trace w) ?c")
          case no: False
          with step pos le run have "r = Inl CalledProcessError" "w' = filler_failed ?c w"
            by auto
          with nostage [OF pos le False Inr no] show ?thesis by simp
        next
          case ok: True
          let ?w2 = "filler_done seg (filler_path wd n fi) ?c w"
          from ok step
          have step': "filler_step e enc q wd n vfs ci seg rem fi w = (Inr (min fd rem), ?w2)"
            by simp
          show ?thesis
          proof (cases "fi + 1 > length vfs")
            case last: True
            with le have eq: "fi = length vfs" by simp
            from last step' pos le run
            have "r = Inr (rem - min fd rem, cur + min fd rem, fi + 1)" "w' = print_warning ?w2"
              by auto
            with final [OF pos eq False Inr ok] show ?thesis by simp
          next
            case more: False
            with le have lt: "fi < length vfs" by simp
            from more step' pos le run
            have rec: "filler_loop e enc q wd n vfs ci seg (rem - min fd rem)
                         (cur + min fd rem) (fi + 1) ?w2 = (r, w')"
              by auto
            have "Q (rem - min fd rem) (cur + min fd rem) (fi + 1) ?w2 r w'"
              by (rule "1.IH" [OF True step' [symmetric] refl more rec leave nopool noprobe
                    nostage final again])
            then show ?thesis by (rule again [OF pos lt False Inr ok])
          qed
        qed
      qed
    qed
  qed
qed



lemma plan_steps_filler_cmd:
  "plan_steps (Exec (filler_cmd enc q wd n vfs ci rem fi fd) # evs)
     = filler_cmd enc q wd n vfs ci rem fi fd # plan_steps evs"
  by (simp add: filler_cmd_def)

lemma c_src_filler_cmd:
  "c_src (filler_cmd enc q wd n vfs ci rem fi fd)
     = vfs ! filler_video_index ci fi (length vfs)"
  by (simp add: filler_cmd_def)

lemma trace_filler_done:
  "trace (filler_done seg fp c w) = trace w @ [Exec c, AppendFile seg (manifest_line fp)]"
  by (simp add: filler_done_def)

lemma trace_filler_failed: "trace (filler_failed c w) = trace w @ [Exec c]"
  by (simp add: filler_failed_def)

lemma trace_print_warning: "trace (print_warning w) = trace w @ [Warn]"
  by (simp add: print_warning_def)

lemma files_print_warning: "files (print_warning w) = files w"
  by (simp add: print_warning_def)

lemma files_filler_done:
  "files (filler_done seg fp c w) = insert seg (insert fp (files w))"
  by (simp add: filler_done_def)

lemma files_filler_failed: "files (filler_failed c w) = files w"
  by (simp add: filler_failed_def)


lemmas filler_world_simps =
  trace_filler_done trace_filler_failed trace_print_warning files_print_warning
  files_filler_done files_filler_failed plan_steps_filler_cmd c_src_filler_cmd


lemma c_out_filler_cmd:
  "c_out (filler_cmd enc q wd n vfs ci rem fi fd) = filler_path wd n fi"
  by (simp add: filler_cmd_def)


lemma filler_loop_sources:
  assumes run: "filler_loop e enc q wd n vfs ci seg rem cur fi w = (r, w')"
  shows "\<exists>evs. trace w' = trace w @ evs
           \<and> (\<forall>c \<in> set (plan_steps evs). vfs \<noteq> []
                 \<and> (\<exists>j. c_src c = vfs ! filler_video_index ci j (length vfs)))"
  by (rule filler_loop_rule [where Q = "\<lambda>rem cur fi w r w'. \<exists>evs. trace w' = trace w @ evs
           \<and> (\<forall>c \<in> set (plan_steps evs). vfs \<noteq> []
                 \<and> (\<exists>j. c_src c = vfs ! filler_video_index ci j (length vfs)))",
         OF run])
     (auto simp: filler_world_simps)


lemma filler_loop_files:
  assumes run: "filler_loop e enc q wd n vfs ci seg rem cur fi w = (r, w')"
  shows "\<exists>evs. trace w' = trace w @ evs \<and> files w \<subseteq> files w'
           \<and> (\<forall>rem' cur' fi'. r = Inr (rem', cur', fi') \<longrightarrow>
                 fi \<le> fi' \<and> files w' = files w \<union> touched evs
                 \<and> (\<forall>p \<in> touched evs. p = seg
                        \<or> (\<exists>j. fi \<le> j \<and> j < fi' \<and> p = filler_path wd n j)))"
proof (rule filler_loop_rule [where Q = "\<lambda>rem cur fi w r w'.
        \<exists>evs. trace w' = trace w @ evs \<and> files w \<subseteq> files w'
           \<and> (\<forall>rem' cur' fi'. r = Inr (rem', cur', fi') \<longrightarrow>
                 fi \<le> fi' \<and> files w' = files w \<union> touched evs
                 \<and> (\<forall>p \<in> touched evs. p = seg
                        \<or> (\<exists>j. fi \<le> j \<and> j < fi' \<and> p = filler_path wd n j)))",
         OF run], goal_cases)
  case (6 rem cur fi w fd r w')
  then obtain evs where evs: "trace w' = trace w @ Exec (filler_cmd enc q wd n vfs ci rem fi fd) #
         AppendFile seg (manifest_line (filler_path wd n fi)) # evs"
    and sub: "insert seg (insert (filler_path wd n fi) (files w)) \<subseteq> files w'"
    and ok: "\<forall>rem' cur' fi'. r = Inr (rem', cur', fi') \<longrightarrow>
                 fi + 1 \<le> fi'
                 \<and> files w' = insert seg (insert (filler_path wd n fi) (files w)) \<union> touched evs
                 \<and> (\<forall>p \<in> touched evs. p = seg
                        \<or> (\<exists>j. fi + 1 \<le> j \<and> j < fi' \<and> p = filler_path wd n j))"
    by (auto simp: filler_world_simps)
  show ?case
  proof (intro exI conjI allI impI)
    show "trace w' = trace w @ Exec (filler_cmd enc q wd n vfs ci rem fi fd) #
         AppendFile seg (manifest_line (filler_path wd n fi)) # evs"
      by (rule evs)
    show "files w \<subseteq> files w'" using sub by blast
  next
    fix rem' cur' fi' assume r: "r = Inr (rem', cur', fi')"
    with ok have a: "fi + 1 \<le> fi'"
      and b: "files w' = insert seg (insert (filler_path wd n fi) (files w)) \<union> touched evs"
      and c: "\<forall>p \<in> touched evs. p = seg
                        \<or> (\<exists>j. fi + 1 \<le> j \<and> j < fi' \<and> p = filler_path wd n j)"
      by blast+
    show "fi \<le> fi'" using a by simp
    show "files w' = files w \<union> touched (Exec (filler_cmd enc q wd n vfs ci rem fi fd) #
         AppendFile seg (manifest_line (filler_path wd n fi)) # evs)"
      using b by (auto simp: c_out_filler_cmd)
    show "\<forall>p \<in> touched (Exec (filler_cmd enc q wd n vfs ci rem fi fd) #
         AppendFile seg (manifest_line (filler_path wd n fi)) # evs). p = seg
                        \<or> (\<exists>j. fi \<le> j \<and> j < fi' \<and> p = filler_path wd n j)"
    proof
      fix p assume "p \<in> touched (Exec (filler_cmd enc q wd n vfs ci rem fi fd) #
         AppendFile seg (manifest_line (filler_path wd n fi)) # evs)"
      then consider "p = filler_path wd n fi" | "p = seg" | "p \<in> touched evs"
        by (auto simp: c_out_filler_cmd)
      then show "p = seg \<or> (\<exists>j. fi \<le> j \<and> j < fi' \<and> p = filler_path wd n j)"
      proof cases
        case 1
        with a show ?thesis by (intro disjI2 exI [of _ fi]) simp
      next
        case 2
        then show ?thesis by simp
      next
        case 3
        with c have "p = seg \<or> (\<exists>j. fi + 1 \<le> j \<and> j < fi' \<and> p = filler_path wd n j)"
          by blast
        then show ?thesis by (metis Suc_eq_plus1 Suc_leD)
      qed
    qed
  qed
qed (auto simp: filler_world_simps c_out_filler_cmd)

section \<open>The composite and its concatenation\<close>

lemma since_self: "since w w = []"
  by (simp add: since_def)

lemma since_append: "trace w' = trace w @ evs \<Longrightarrow> since w w' = evs"
  by (simp add: since_def)

lemma fold_remove_if_exists:
  "files (fold remove_if_exists ps w) = files w - set ps
   \<and> trace (fold remove_if_exists ps w) = trace w"
  by (induction ps arbitrary: w) (auto simp: remove_if_exists_def)

lemma path_join_eq:
  assumes "a \<noteq> []" "hd a \<noteq> CHR ''/''" "b \<noteq> []" "hd b \<noteq> CHR ''/''"
  shows "path_join wd a = path_join wd b \<longleftrightarrow> a = b"
  using assms by (simp add: path_join_def)

lemma segments_neq_original: "segments_path wd n \<noteq> original_path wd n"
  by (simp add: segments_path_def original_path_def path_join_eq)

lemma segments_neq_filler: "segments_path wd n \<noteq> filler_path wd n j"
  by (simp add: segments_path_def filler_path_def path_join_eq)

lemma segments_neq_processed: "segments_path wd n \<noteq> processed_path wd n"
  by (simp add: segments_path_def processed_path_def path_join_eq)

lemma original_neq_processed: "original_path wd n \<noteq> processed_path wd n"
  by (simp add: original_path_def processed_path_def path_join_eq)

lemma concat_segments_trace:
  "trace (snd (concat_segments e enc q wd n fi w)) =
     trace w @ [Exec (concat_cmd enc q wd n)]"
  by (simp add: concat_cmd_def concat_segments_def then_do_def run_ffmpeg_def os_remove_def remove_all_def
      give_def fold_remove_if_exists)


lemma concat_segments_ok:
  assumes "ffmpeg e (trace w) (concat_cmd enc q wd n)"
    and "original_path wd n \<in> files w" and "segments_path wd n \<in> files w"
  shows "fst (concat_segments e enc q wd n fi w) = Inr (processed_path wd n)"
  using assms segments_neq_original [of wd n] segments_neq_filler [of wd n]
  by (auto simp: concat_cmd_def concat_segments_def then_do_def run_ffmpeg_def os_remove_def
      remove_all_def give_def fold_remove_if_exists)


lemma since_trans:
  "trace w2 = trace w @ a \<Longrightarrow> trace w3 = trace w2 @ b \<Longrightarrow> since w w3 = a @ b"
  by (simp add: since_def)

lemma filler_loop_prefix:
  assumes "filler_loop e enc q wd n vfs ci seg rem cur fi w = (r, w')"
  shows "trace w' = trace w @ since w w'"
  using filler_loop_sources [OF assms] by (auto simp: since_def)


lemma filler_loop_sources_since:
  assumes "filler_loop e enc q wd n vfs ci seg rem cur fi w = (r, w')"
    and "c \<in> set (plan_steps (since w w'))"
  shows "vfs \<noteq> [] \<and> (\<exists>j. c_src c = vfs ! filler_video_index ci j (length vfs))"
  using filler_loop_sources [OF assms(1)] assms(2) by (auto simp: since_def)


lemma filler_loop_files_since:
  assumes "filler_loop e enc q wd n vfs ci seg rem cur fi w = (r, w')"
  shows "files w \<subseteq> files w'"
    and "r = Inr (rem', cur', fi') \<Longrightarrow> files w' = files w \<union> touched (since w w')"
    and "r = Inr (rem', cur', fi') \<Longrightarrow> p \<in> touched (since w w')
           \<Longrightarrow> p = seg \<or> (\<exists>j. j < fi' \<and> p = filler_path wd n j)"
  using filler_loop_files [OF assms(1)] by (auto simp: since_def)

lemma filler_video_index_less: "0 < n \<Longrightarrow> filler_video_index ci fi n < n"
  by (simp add: filler_video_index_def Let_def)

lemma filler_loop_cooperative:
  assumes run: "filler_loop e enc q wd n vfs ci seg rem cur fi w = (r, w')"
    and coop: "cooperative e vf vfs" and pool: "vfs \<noteq> []"
  shows "\<exists>x. r = Inr x"
proof (rule filler_loop_rule [where Q = "\<lambda>rem cur fi w r w'. \<exists>x. r = Inr x", OF run],
    goal_cases)
  case (2 rem cur fi w)
  with pool show ?case by simp
next
  case (3 rem cur fi w err)
  from pool have "vfs ! filler_video_index ci fi (length vfs) \<in> set vfs"
    by (simp add: filler_video_index_less)
  with coop 3 show ?case by (auto simp: cooperative_def)
next
  case (4 rem cur fi w fd)
  with coop show ?case by (simp add: cooperative_def)
qed simp_all


lemma composite_unfold:
  "composite e vf T enc q wd n vfs ci d w =
     (if \<not> ffmpeg e (trace w) (anchor_cmd vf enc q wd n)
      then (Inl CalledProcessError, filler_failed (anchor_cmd vf enc q wd n) w)
      else (case filler_loop e enc q wd n vfs ci (segments_path wd n) (T - d) d 0
                   (anchor_done wd n (anchor_cmd vf enc q wd n) w) of
              (Inl err, w3) \<Rightarrow> (Inl err, w3)
            | (Inr (rem, cur, fi), w3) \<Rightarrow> concat_segments e enc q wd n fi w3))"
  by (simp add: composite_def then_do_def run_ffmpeg_def write_file_def anchor_cmd_def
      anchor_done_def filler_failed_def split: sum.splits prod.splits)

lemma composite_cases [consumes 1, case_names noanchor noloop looped]:
  assumes "composite e vf T enc q wd n vfs ci d w = (r, w')"
  obtains
    "\<not> ffmpeg e (trace w) (anchor_cmd vf enc q wd n)"
      "r = Inl CalledProcessError" "w' = filler_failed (anchor_cmd vf enc q wd n) w"
  | err where "ffmpeg e (trace w) (anchor_cmd vf enc q wd n)"
      "filler_loop e enc q wd n vfs ci (segments_path wd n) (T - d) d 0
         (anchor_done wd n (anchor_cmd vf enc q wd n) w) = (Inl err, w')"
      "r = Inl err"
  | rem cur fi w3 where "ffmpeg e (trace w) (anchor_cmd vf enc q wd n)"
      "filler_loop e enc q wd n vfs ci (segments_path wd n) (T - d) d 0
         (anchor_done wd n (anchor_cmd vf enc q wd n) w) = (Inr (rem, cur, fi), w3)"
      "concat_segments e enc q wd n fi w3 = (r, w')"
  using assms unfolding composite_unfold
  by (auto split: if_splits sum.splits prod.splits)

lemma trace_anchor_done:
  "trace (anchor_done wd n c w) =
     trace w @ [Exec c, WriteFile (segments_path wd n) [manifest_line (original_path wd n)]]"
  by (simp add: anchor_done_def)

lemma files_anchor_done:
  "files (anchor_done wd n c w) = insert (segments_path wd n) (insert (original_path wd n) (files w))"
  by (simp add: anchor_done_def)

lemma plan_steps_anchor_cmd:
  "plan_steps (Exec (anchor_cmd vf enc q wd n) # evs) = anchor_cmd vf enc q wd n # plan_steps evs"
  by (simp add: anchor_cmd_def)

lemma plan_steps_concat_cmd: "plan_steps [Exec (concat_cmd enc q wd n)] = []"
  by (simp add: concat_cmd_def)

text \<open>What a composite did, by how far it got.\<close>

lemma composite_since:
  assumes "composite e vf T enc q wd n vfs ci d w = (r, w')"
  obtains
    "r = Inl CalledProcessError" "since w w' = [Exec (anchor_cmd vf enc q wd n)]"
      "trace w' = trace w @ since w w'"
  | err w2 where "r = Inl err"
      "w2 = anchor_done wd n (anchor_cmd vf enc q wd n) w"
      "filler_loop e enc q wd n vfs ci (segments_path wd n) (T - d) d 0 w2 = (Inl err, w')"
      "since w w' = Exec (anchor_cmd vf enc q wd n)
         # WriteFile (segments_path wd n) [manifest_line (original_path wd n)] # since w2 w'"
      "trace w' = trace w @ since w w'"
  | rem cur fi w2 w3 where
      "w2 = anchor_done wd n (anchor_cmd vf enc q wd n) w"
      "filler_loop e enc q wd n vfs ci (segments_path wd n) (T - d) d 0 w2
         = (Inr (rem, cur, fi), w3)"
      "concat_segments e enc q wd n fi w3 = (r, w')"
      "since w w' = Exec (anchor_cmd vf enc q wd n)
         # WriteFile (segments_path wd n) [manifest_line (original_path wd n)]
         # since w2 w3 @ [Exec (concat_cmd enc q wd n)]"
      "trace w' = trace w @ since w w'"
using assms
proof (cases rule: composite_cases)
  case noanchor
  have tr: "trace w' = trace w @ [Exec (anchor_cmd vf enc q wd n)]"
    by (simp add: noanchor(3) filler_failed_def)
  have si: "since w w' = [Exec (anchor_cmd vf enc q wd n)]"
    by (rule since_append [OF tr])
  show ?thesis
    by (rule that(1) [OF noanchor(2) si]) (simp only: si tr)
next
  case (noloop err)
  let ?w2 = "anchor_done wd n (anchor_cmd vf enc q wd n) w"
  let ?evs = "Exec (anchor_cmd vf enc q wd n)
         # WriteFile (segments_path wd n) [manifest_line (original_path wd n)] # since ?w2 w'"
  have "trace w' = trace ?w2 @ since ?w2 w'"
    by (rule filler_loop_prefix [OF noloop(2)])
  then have tr: "trace w' = trace w @ ?evs"
    by (simp only: trace_anchor_done append_assoc append_Cons append_Nil)
  have si: "since w w' = ?evs"
    by (rule since_append [OF tr])
  show ?thesis
    by (rule that(2) [OF noloop(3) refl noloop(2) si]) (simp only: si tr)
next
  case (looped rem cur fi w3)
  let ?w2 = "anchor_done wd n (anchor_cmd vf enc q wd n) w"
  let ?evs = "Exec (anchor_cmd vf enc q wd n)
         # WriteFile (segments_path wd n) [manifest_line (original_path wd n)]
         # since ?w2 w3 @ [Exec (concat_cmd enc q wd n)]"
  have "trace (snd (concat_segments e enc q wd n fi w3)) = trace w3 @ [Exec (concat_cmd enc q wd n)]"
    by (rule concat_segments_trace)
  then have t1: "trace w' = trace w3 @ [Exec (concat_cmd enc q wd n)]"
    by (simp only: looped(3) snd_conv)
  have t2: "trace w3 = trace ?w2 @ since ?w2 w3"
    by (rule filler_loop_prefix [OF looped(2)])
  have "trace w' = (trace ?w2 @ since ?w2 w3) @ [Exec (concat_cmd enc q wd n)]"
    by (rule t1 [unfolded t2])
  then have tr: "trace w' = trace w @ ?evs"
    by (simp only: trace_anchor_done append_assoc append_Cons append_Nil)
  have si: "since w w' = ?evs"
    by (rule since_append [OF tr])
  show ?thesis
    by (rule that(3) [OF refl looped(2) looped(3) si]) (simp only: si tr)
qed


lemma prv_cases [consumes 1, case_names noprobe long short]:
  assumes "process_replacement_video e vf T enc q wd n vfs ci w = (r, w')"
  obtains
    err where "get_video_duration e vf = Inl err" "r = Inl err" "w' = w"
  | d where "get_video_duration e vf = Inr d" "T \<le> d"
      "trace w' = trace w @ [Exec (cut_cmd vf T enc q wd n)]"
      "r = (if ffmpeg e (trace w) (cut_cmd vf T enc q wd n)
            then Inr (processed_path wd n) else Inl CalledProcessError)"
      "files w' = (if ffmpeg e (trace w) (cut_cmd vf T enc q wd n)
            then insert (processed_path wd n) (files w) else files w)"
  | d where "get_video_duration e vf = Inr d" "d < T"
      "composite e vf T enc q wd n vfs ci d w = (r, w')"
proof (cases "get_video_duration e vf")
  case (Inl err)
  with assms have "r = Inl err" "w' = w"
    by (simp_all add: process_replacement_video_def then_do_def probe_def)
  with Inl that(1) show ?thesis by blast
next
  case (Inr d)
  show ?thesis
  proof (cases "T \<le> d")
    case True
    with Inr assms
    have "trace w' = trace w @ [Exec (cut_cmd vf T enc q wd n)]"
      "r = (if ffmpeg e (trace w) (cut_cmd vf T enc q wd n)
            then Inr (processed_path wd n) else Inl CalledProcessError)"
      "files w' = (if ffmpeg e (trace w) (cut_cmd vf T enc q wd n)
            then insert (processed_path wd n) (files w) else files w)"
      by (auto simp: process_replacement_video_def then_do_def probe_def run_ffmpeg_def
          give_def cut_cmd_def split: if_splits)
    with Inr True that(2) show ?thesis by blast
  next
    case False
    with Inr assms have "composite e vf T enc q wd n vfs ci d w = (r, w')"
      by (simp add: process_replacement_video_def then_do_def probe_def)
    with Inr False that(3) show ?thesis by force
  qed
qed






section \<open>The steps of process_replacement_video\<close>



lemma filler_steps_composite:
  "filler_steps (Exec (anchor_cmd vf enc q wd n) # WriteFile p ls # evs @ [Exec (concat_cmd enc q wd n)])
     = plan_steps evs"
  by (simp add: filler_steps_def plan_steps_anchor_cmd plan_steps_append plan_steps_concat_cmd)

lemma filler_steps_composite_noloop:
  "filler_steps (Exec (anchor_cmd vf enc q wd n) # WriteFile p ls # evs) = plan_steps evs"
  by (simp add: filler_steps_def plan_steps_anchor_cmd)

lemma filler_steps_anchor_only: "filler_steps [Exec (anchor_cmd vf enc q wd n)] = []"
  by (simp add: filler_steps_def plan_steps_anchor_cmd)

lemma filler_steps_cut_only: "filler_steps [Exec (cut_cmd vf T enc q wd n)] = []"
  by (simp add: filler_steps_def cut_cmd_def)

text \<open>The fillers of a composite are the steps that its loop planned.\<close>

lemma composite_fillers:
  assumes "composite e vf T enc q wd n vfs ci d w = (r, w')"
  obtains "filler_steps (since w w') = []"
  | rl w2 w3 where
      "filler_loop e enc q wd n vfs ci (segments_path wd n) (T - d) d 0 w2 = (rl, w3)"
      "filler_steps (since w w') = plan_steps (since w2 w3)"
  using assms
proof (cases rule: composite_since)
  case 1
  then show ?thesis using that(1) by (simp add: filler_steps_anchor_only)
next
  case (2 err w2)
  have "filler_steps (since w w') = plan_steps (since w2 w')"
    by (simp only: 2(4) filler_steps_composite_noloop)
  with 2(3) show ?thesis using that(2) by blast
next
  case (3 rem cur fi w2 w3)
  have "filler_steps (since w w') = plan_steps (since w2 w3)"
    by (simp only: 3(4) filler_steps_composite)
  with 3(2) show ?thesis using that(2) by blast
qed


lemma prv_fillers:
  assumes "process_replacement_video e vf T enc q wd n vfs ci w = (r, w')"
  obtains "filler_steps (since w w') = []"
  | d rl w2 w3 where "get_video_duration e vf = Inr d" "d < T"
      "filler_loop e enc q wd n vfs ci (segments_path wd n) (T - d) d 0 w2 = (rl, w3)"
      "filler_steps (since w w') = plan_steps (since w2 w3)"
  using assms
proof (cases rule: prv_cases)
  case (noprobe err)
  then show ?thesis using that(1) by (simp add: since_self filler_steps_def)
next
  case (long d)
  have "since w w' = [Exec (cut_cmd vf T enc q wd n)]"
    by (rule since_append [OF long(3)])
  then show ?thesis using that(1) by (simp add: filler_steps_cut_only)
next
  case (short d)
  from short(3) show ?thesis
  proof (cases rule: composite_fillers)
    case 1
    then show ?thesis by (rule that(1))
  next
    case (2 rl w2 w3)
    show ?thesis by (rule that(2) [OF short(1,2) 2])
  qed
qed


lemma prv_filler_sources:
  assumes "process_replacement_video e vf T enc q wd n vfs ci w = (r, w')"
    and "c \<in> set (filler_steps (since w w'))"
  shows "vfs \<noteq> [] \<and> (\<exists>j. c_src c = vfs ! filler_video_index ci j (length vfs))"
  using assms(1)
proof (cases rule: prv_fillers)
  case 1
  with assms(2) show ?thesis by simp
next
  case (2 d rl w2 w3)
  with assms(2) have "c \<in> set (plan_steps (since w2 w3))" by simp
  then show ?thesis by (rule filler_loop_sources_since [OF 2(3)])
qed


lemma filler_video_index_one: "filler_video_index ci j 1 = 0"
  by (simp add: filler_video_index_def)

section \<open>Cooperative runs, files and the end of the loop\<close>

lemma cooperative_ffmpeg: "cooperative e vf vfs \<Longrightarrow> ffmpeg e h c"
  by (simp add: cooperative_def)

lemma cooperative_probe: "cooperative e vf vfs \<Longrightarrow> \<exists>d. get_video_duration e vf = Inr d"
  by (simp add: cooperative_def)

lemma composite_ok:
  assumes coop: "cooperative e vf vfs" and pool: "vfs \<noteq> []"
  shows "fst (composite e vf T enc q wd n vfs ci d w) = Inr (processed_path wd n)"
proof -
  obtain r w' where run: "composite e vf T enc q wd n vfs ci d w = (r, w')"
    by (cases "composite e vf T enc q wd n vfs ci d w") blast
  from run have "r = Inr (processed_path wd n)"
  proof (cases rule: composite_cases)
    case noanchor
    with cooperative_ffmpeg [OF coop] show ?thesis by blast
  next
    case (noloop err)
    from filler_loop_cooperative [OF noloop(2) coop pool] show ?thesis by simp
  next
    case (looped rem cur fi w3)
    let ?w2 = "anchor_done wd n (anchor_cmd vf enc q wd n) w"
    from filler_loop_files_since(1) [OF looped(2)]
    have "original_path wd n \<in> files w3" "segments_path wd n \<in> files w3"
      by (auto simp: files_anchor_done)
    from concat_segments_ok [OF cooperative_ffmpeg [OF coop] this, where fi = fi and enc = enc and q = q] looped(3)
    show ?thesis by simp
  qed
  with run show ?thesis by simp
qed

lemma prv_ok:
  assumes coop: "cooperative e vf vfs" and pool: "vfs \<noteq> []"
  shows "fst (process_replacement_video e vf T enc q wd n vfs ci w) = Inr (processed_path wd n)"
proof -
  obtain r w' where run: "process_replacement_video e vf T enc q wd n vfs ci w = (r, w')"
    by (cases "process_replacement_video e vf T enc q wd n vfs ci w") blast
  from run have "r = Inr (processed_path wd n)"
  proof (cases rule: prv_cases)
    case (noprobe err)
    with cooperative_probe [OF coop] show ?thesis by simp
  next
    case (long d)
    with cooperative_ffmpeg [OF coop] show ?thesis by simp
  next
    case (short d)
    from composite_ok [OF coop pool, of T enc q wd n ci d w] short(3) show ?thesis by simp
  qed
  with run show ?thesis by simp
qed





lemma steady_probe: "get_video_duration steady_env p = Inr 1"
  by (simp add: get_video_duration_def steady_env_def strip_def isspace_def
      float_decimal_def digit_val_def)

lemma steady_cooperative: "cooperative steady_env vf vfs"
  by (simp add: cooperative_def steady_probe) (simp add: steady_env_def)

lemma prv_run: "process_replacement_video e vf T enc q wd n vfs ci w
    = (fst (process_replacement_video e vf T enc q wd n vfs ci w),
       snd (process_replacement_video e vf T enc q wd n vfs ci w))"
  by simp

section \<open>Properties of the composer\<close>

text \<open>
  C5. When the replacement video is at least as long as the target, the only command
  issued is the cut of that video to exactly the target length, written to the processed
  file: the plan has that single step, lasting the target. The folder and the current
  index are not consulted: the run is the same for any other folder and index. The
  processed file is returned when that command exits with status zero.
\<close>

theorem prv_long_enough:
  assumes "get_video_duration e video_file = Inr duration"
    and "target_length \<le> duration"
  shows "since w (snd (process_replacement_video e video_file target_length encoder
            quality_params work_dir output_number video_files current_index w))
           = [Exec (MuteVideo video_file (Some target_length) None encoder quality_params
                (processed_path work_dir output_number))]
    \<and> plan_steps (since w (snd (process_replacement_video e video_file target_length encoder
            quality_params work_dir output_number video_files current_index w)))
           = [MuteVideo video_file (Some target_length) None encoder quality_params
                (processed_path work_dir output_number)]
    \<and> planned_seconds e (since w (snd (process_replacement_video e video_file target_length
            encoder quality_params work_dir output_number video_files current_index w)))
           = target_length
    \<and> process_replacement_video e video_file target_length encoder quality_params work_dir
            output_number other_files other_index w
         = process_replacement_video e video_file target_length encoder quality_params work_dir
            output_number video_files current_index w
    \<and> fst (process_replacement_video e video_file target_length encoder quality_params
            work_dir output_number video_files current_index w)
         = (if ffmpeg e (trace w)
                (MuteVideo video_file (Some target_length) None encoder quality_params
                   (processed_path work_dir output_number))
            then Inr (processed_path work_dir output_number)
            else Inl CalledProcessError)"
  using assms
  by (simp add: process_replacement_video_def then_do_def probe_def run_ffmpeg_def give_def
      since_def planned_seconds_def step_seconds_def)

theorem prv_long_enough_witness:
  "get_video_duration steady_env ''a.mp4'' = Inr 1
   \<and> (1 / 2 :: rat) \<le> 1
   \<and> since (fresh {}) (snd (process_replacement_video steady_env ''a.mp4'' (1 / 2) ''libx264''
          ''-crf 23 -preset fast'' ''out'' 1 [''a.mp4'', ''b.mp4''] 0 (fresh {})))
        = [Exec (MuteVideo ''a.mp4'' (Some (1 / 2)) None ''libx264'' ''-crf 23 -preset fast''
             (processed_path ''out'' 1))]
   \<and> fst (process_replacement_video steady_env ''a.mp4'' (1 / 2) ''libx264''
          ''-crf 23 -preset fast'' ''out'' 1 [''a.mp4'', ''b.mp4''] 0 (fresh {}))
        = Inr (processed_path ''out'' 1)"
proof -
  have a: "get_video_duration steady_env ''a.mp4'' = Inr 1" by (rule steady_probe)
  have b: "(1 / 2 :: rat) \<le> 1" by simp
  have c: "ffmpeg steady_env h c" for h c by (simp add: steady_env_def)
  from prv_long_enough [OF a b, of "fresh {}" "''libx264''" "''-crf 23 -preset fast''"
      "''out''" 1 "[''a.mp4'', ''b.mp4'']" 0] a b c
  show ?thesis by simp
qed











text \<open>
  C10. With a folder of one file, which is then the current file itself, every filler
  step reuses that file: the index after the skip is 0 again. No error comes from the
  selection: with an engine that does not fail, the run returns the processed file.
\<close>

theorem prv_single_pool:
  assumes "length video_files = 1" and "current_index = 0"
  shows "(\<forall>c \<in> set (filler_steps (since w (snd (process_replacement_video e video_file
             target_length encoder quality_params work_dir output_number video_files
             current_index w)))). c_src c = video_files ! current_index)
    \<and> (cooperative e video_file video_files
        \<longrightarrow> fst (process_replacement_video e video_file target_length encoder quality_params
               work_dir output_number video_files current_index w)
             = Inr (processed_path work_dir output_number))"
proof (intro conjI ballI impI)
  let ?run = "process_replacement_video e video_file target_length encoder quality_params
       work_dir output_number video_files current_index w"
  from assms(1) have pool: "video_files \<noteq> []" by auto
  show "fst ?run = Inr (processed_path work_dir output_number)"
    if "cooperative e video_file video_files"
    by (rule prv_ok [OF that pool])
  show "c_src c = video_files ! current_index"
    if "c \<in> set (filler_steps (since w (snd ?run)))" for c
  proof -
    from prv_filler_sources [OF prv_run that]
    obtain j where "c_src c = video_files ! filler_video_index current_index j (length video_files)"
      by blast
    with assms show ?thesis by (simp add: filler_video_index_def)
  qed
qed

theorem prv_single_pool_witness:
  "length [''a.mp4''] = 1
   \<and> cooperative steady_env ''a.mp4'' [''a.mp4'']
   \<and> c_src ` set (filler_steps (since (fresh {}) (snd (process_replacement_video steady_env
          ''a.mp4'' 5 ''libx264'' ''-crf 23 -preset fast'' ''out'' 1 [''a.mp4''] 0
          (fresh {}))))) \<subseteq> {''a.mp4''}
   \<and> length (filler_steps (since (fresh {}) (snd (process_replacement_video steady_env
          ''a.mp4'' 5 ''libx264'' ''-crf 23 -preset fast'' ''out'' 1 [''a.mp4''] 0
          (fresh {}))))) = 2
   \<and> fst (process_replacement_video steady_env ''a.mp4'' 5 ''libx264''
          ''-crf 23 -preset fast'' ''out'' 1 [''a.mp4''] 0 (fresh {}))
        = Inr (processed_path ''out'' 1)"
proof -
  let ?run = "process_replacement_video steady_env ''a.mp4'' 5 ''libx264''
          ''-crf 23 -preset fast'' ''out'' 1 [''a.mp4''] 0 (fresh {})"
  have a: "length [''a.mp4''] = 1" by simp
  have b: "cooperative steady_env ''a.mp4'' [''a.mp4'']" by (rule steady_cooperative)
  note inst = prv_single_pool [OF a refl, of "fresh {}" steady_env "''a.mp4''" 5 "''libx264''"
      "''-crf 23 -preset fast''" "''out''" 1]
  from inst have c: "c_src ` set (filler_steps (since (fresh {}) (snd ?run))) \<subseteq> {''a.mp4''}"
    by auto
  from inst b have d: "fst ?run = Inr (processed_path ''out'' 1)" by blast
  have f: "length (filler_steps (since (fresh {}) (snd ?run))) = 2" by code_simp
  from a b c d f show ?thesis by blast
qed











section \<open>The looped upsell section\<close>






section \<open>The batch and the cleanup\<close>














lemma main_loop_aborts:
  assumes "main_loop e mv T enc q wd fn vfs pre w = (Inr (), w1)"
    and "main_loop_body e mv T enc q wd fn vfs i w1 = (Inl err, w2)"
  shows "main_loop e mv T enc q wd fn vfs (pre @ i # post) w = (Inl err, w2)"
  using assms
proof (induction pre arbitrary: w)
  case Nil
  then show ?case by simp
next
  case (Cons j pre)
  from Cons.prems(1) obtain w' where
    j: "main_loop_body e mv T enc q wd fn vfs j w = (Inr (), w')"
    and rest: "main_loop e mv T enc q wd fn vfs pre w' = (Inr (), w1)"
    by (auto split: prod.splits sum.splits)
  from Cons.IH [OF rest Cons.prems(2)] j show ?case by simp
qed



text \<open>
  C2, as stated, fails: a stage that exits non-zero ends the whole batch. Here the first
  command of the first file fails and every later command would succeed; the script
  exits with status 1 after that one command, and nothing is done for the second file.
\<close>

theorem script_continues_counterexample:
  "length [''a.mp4'', ''b.mp4''] = 2
   \<and> script first_fails_env ''main.mp4'' (1 / 2) ''libx264'' ''-crf 23 -preset fast'' ''out''
        ''clips'' [''a.mp4'', ''b.mp4''] (fresh {})
      = (1, \<lparr>files = {},
              trace = [Exec (ExtractAudio ''main.mp4'' (main_audio_path ''out'' 0))]\<rparr>)"
  by (simp add: script_def main_from_scan_def upt_rec main_loop_body_def then_do_def
      run_ffmpeg_def fresh_def first_fails_env_def Let_def)

text \<open>
  C2, amended. When a stage exits non-zero while processing one output file, the
  exception leaves the loop over the files: the files after it are not processed, the
  world is left as it was at the failure, and the script exits with status 1.
\<close>

theorem script_aborts_batch:
  assumes "k < length video_files"
    and "main_loop e main_video target_length encoder quality_params work_dir folder_name
           video_files [0..<k] w = (Inr (), w1)"
    and "main_loop_body e main_video target_length encoder quality_params work_dir folder_name
           video_files k w1 = (Inl err, w2)"
  shows "main_loop e main_video target_length encoder quality_params work_dir folder_name
           video_files [0..<length video_files] w = (Inl err, w2)
    \<and> script e main_video target_length encoder quality_params work_dir folder_name
           video_files w = (1, w2)"
proof -
  from assms(1) have "[0..<k + (length video_files - k)]
      = [0..<k] @ [k..<k + (length video_files - k)]"
    by (intro upt_add_eq_append) simp
  with assms(1)
  have split: "[0..<length video_files] = [0..<k] @ k # [Suc k..<length video_files]"
    by (simp add: upt_conv_Cons)
  have loop: "main_loop e main_video target_length encoder quality_params work_dir folder_name
           video_files [0..<length video_files] w = (Inl err, w2)"
    unfolding split by (rule main_loop_aborts [OF assms(2,3)])
  from assms(1) have "video_files \<noteq> []" by auto
  with loop show ?thesis by (simp add: script_def main_from_scan_def)
qed

theorem script_aborts_batch_witness:
  "(0 :: nat) < length [''a.mp4'', ''b.mp4'']
   \<and> main_loop first_fails_env ''main.mp4'' (1 / 2) ''libx264'' ''-crf 23 -preset fast''
        ''out'' ''clips'' [''a.mp4'', ''b.mp4''] [0..<0] (fresh {}) = (Inr (), fresh {})
   \<and> main_loop_body first_fails_env ''main.mp4'' (1 / 2) ''libx264'' ''-crf 23 -preset fast''
        ''out'' ''clips'' [''a.mp4'', ''b.mp4''] 0 (fresh {})
      = (Inl CalledProcessError,
         \<lparr>files = {},
          trace = [Exec (ExtractAudio ''main.mp4'' (main_audio_path ''out'' 0))]\<rparr>)
   \<and> script first_fails_env ''main.mp4'' (1 / 2) ''libx264'' ''-crf 23 -preset fast'' ''out''
        ''clips'' [''a.mp4'', ''b.mp4''] (fresh {})
      = (1, \<lparr>files = {},
              trace = [Exec (ExtractAudio ''main.mp4'' (main_audio_path ''out'' 0))]\<rparr>)"
proof -
  have a: "(0 :: nat) < length [''a.mp4'', ''b.mp4'']" by simp
  have b: "main_loop first_fails_env ''main.mp4'' (1 / 2) ''libx264'' ''-crf 23 -preset fast''
        ''out'' ''clips'' [''a.mp4'', ''b.mp4''] [0..<0] (fresh {}) = (Inr (), fresh {})"
    by simp
  have c: "main_loop_body first_fails_env ''main.mp4'' (1 / 2) ''libx264''
        ''-crf 23 -preset fast'' ''out'' ''clips'' [''a.mp4'', ''b.mp4''] 0 (fresh {})
      = (Inl CalledProcessError,
         \<lparr>files = {},
          trace = [Exec (ExtractAudio ''main.mp4'' (main_audio_path ''out'' 0))]\<rparr>)"
    by (simp add: main_loop_body_def then_do_def run_ffmpeg_def fresh_def first_fails_env_def
        Let_def)
  from script_aborts_batch [OF a b c] a b c show ?thesis by blast
qed




end
